theory Spec2Isabelle
  imports Complex_Main "HOL-Library.Word"
begin

section \<open>kokkostbx: fixed-size numeric vectors\<close>

text \<open>
  The source is the class template \<open>vector_base<Derived, NumType, size>\<close>
  (kokkos_vector.h) and its 3-component specialisation \<open>vector3<NumType>\<close>
  (kokkos_vector3.h).

  \<^item> \<open>NumType\<close> is the type variable \<open>'a\<close>. Its operators \<open>+\<close>, \<open>-\<close>, \<open>*\<close>,
    the literals \<open>0\<close>, \<open>1\<close>, \<open>-1\<close> and the comparison \<open>>\<close> are the overloaded
    constants of HOL, so every statement below holds at each instance
    (\<open>real\<close> for a floating-point type read exactly, \<open>32 word\<close> for
    \<open>unsigned int\<close> with its wrap-around, \<open>int\<close> for an integer type away from
    overflow), and it asks of the element type only the sort written in its
    type.
  \<^item> The element quotient \<open>x / y\<close> is a parameter \<open>dv\<close> with an optional
    result: \<open>None\<close> stands for a quotient the element type does not deliver
    (an integral division by zero). The vector code performs no check of its
    own, so a missing quotient ends the operation.
  \<^item> \<open>Kokkos::Experimental::sqrt\<close> belongs to the Kokkos library; it is the
    parameter \<open>sq\<close>, the library's square root converted back to \<open>NumType\<close>.
  \<^item> The template parameter \<open>size\<close> is the argument \<open>n\<close>. The member
    \<open>NumType data[size]\<close> is a list, and an object of the class has
    \<open>length (data v) = n\<close>.
\<close>

record 'a vector_base =
  data :: "'a list"

subsection \<open>The counting loop\<close>

text \<open>
  Every loop of the source is \<open>for (size_t i=0; i<size; ++i) { body }\<close>;
  \<open>for_loop i n body s\<close> runs the body for the indices from \<open>i\<close> up to \<open>n\<close> on the
  state \<open>s\<close>. \<open>for_loop_opt\<close> is the same loop for a body that can fail: the first
  failure ends it.
\<close>

function for_loop :: "nat \<Rightarrow> nat \<Rightarrow> (nat \<Rightarrow> 's \<Rightarrow> 's) \<Rightarrow> 's \<Rightarrow> 's" where
  "for_loop i n body s = (if i < n then for_loop (Suc i) n body (body i s) else s)"
  by pat_completeness auto
termination
  by (relation "measure (\<lambda>(i, n, body, s). n - i)") auto

declare for_loop.simps [simp del]

function for_loop_opt :: "nat \<Rightarrow> nat \<Rightarrow> (nat \<Rightarrow> 's \<Rightarrow> 's option) \<Rightarrow> 's \<Rightarrow> 's option" where
  "for_loop_opt i n body s =
     (if i < n then
        (case body i s of None \<Rightarrow> None | Some s' \<Rightarrow> for_loop_opt (Suc i) n body s')
      else Some s)"
  by pat_completeness auto
termination
  by (relation "measure (\<lambda>(i, n, body, s). n - i)") auto

declare for_loop_opt.simps [simp del]

subsection \<open>Constructors\<close>

text \<open>\<open>NumType data[size] = {};\<close> with the defaulted constructor.\<close>

definition vector_base_default :: "nat \<Rightarrow> 'a::zero vector_base" where
  "vector_base_default n = \<lparr>data = replicate n 0\<rparr>"

text \<open>\<open>vector_base(NumType val)\<close>: \<open>for (NumType& d : data) { d = val; }\<close>.\<close>

definition vector_base_val :: "nat \<Rightarrow> 'a::zero \<Rightarrow> 'a vector_base" where
  "vector_base_val n val =
     for_loop 0 n (\<lambda>i self. self\<lparr>data := (data self)[i := val]\<rparr>) (vector_base_default n)"

text \<open>
  \<open>vector_base(NumType arr[])\<close> reads \<open>arr[0]\<close> to \<open>arr[size-1]\<close> without a
  length check; on a shorter array the read is out of bounds, which is \<open>None\<close>.
\<close>

definition vector_base_arr :: "nat \<Rightarrow> 'a::zero list \<Rightarrow> 'a vector_base option" where
  "vector_base_arr n arr =
     (if length arr < n then None
      else Some (for_loop 0 n (\<lambda>i self. self\<lparr>data := (data self)[i := arr ! i]\<rparr>)
                   (vector_base_default n)))"

subsection \<open>Operators\<close>

definition operator_plus_assign :: "nat \<Rightarrow> 'a::plus vector_base \<Rightarrow> 'a vector_base \<Rightarrow> 'a vector_base" where
  "operator_plus_assign n self v =
     for_loop 0 n (\<lambda>i self. self\<lparr>data := (data self)[i := data self ! i + data v ! i]\<rparr>) self"

definition operator_plus :: "nat \<Rightarrow> 'a::plus vector_base \<Rightarrow> 'a vector_base \<Rightarrow> 'a vector_base" where
  "operator_plus n lhs rhs = (let sum = lhs in operator_plus_assign n sum rhs)"

text \<open>Unary minus: \<open>negative[i] *= -1\<close>.\<close>

definition operator_neg :: "nat \<Rightarrow> 'a::{times,uminus,one} vector_base \<Rightarrow> 'a vector_base" where
  "operator_neg n vec =
     (let negative = vec in
      for_loop 0 n (\<lambda>i negative. negative\<lparr>data := (data negative)[i := data negative ! i * (- 1)]\<rparr>)
        negative)"

definition operator_minus_assign :: "nat \<Rightarrow> 'a::minus vector_base \<Rightarrow> 'a vector_base \<Rightarrow> 'a vector_base" where
  "operator_minus_assign n self v =
     for_loop 0 n (\<lambda>i self. self\<lparr>data := (data self)[i := data self ! i - data v ! i]\<rparr>) self"

definition operator_minus :: "nat \<Rightarrow> 'a::minus vector_base \<Rightarrow> 'a vector_base \<Rightarrow> 'a vector_base" where
  "operator_minus n lhs rhs = (let sum = lhs in operator_minus_assign n sum rhs)"

definition operator_times_assign :: "nat \<Rightarrow> 'a::times vector_base \<Rightarrow> 'a vector_base \<Rightarrow> 'a vector_base" where
  "operator_times_assign n self v =
     for_loop 0 n (\<lambda>i self. self\<lparr>data := (data self)[i := data self ! i * data v ! i]\<rparr>) self"

definition operator_times :: "nat \<Rightarrow> 'a::times vector_base \<Rightarrow> 'a vector_base \<Rightarrow> 'a vector_base" where
  "operator_times n lhs rhs = (let prod = lhs in operator_times_assign n prod rhs)"

definition operator_div_assign ::
  "('a \<Rightarrow> 'a \<Rightarrow> 'a option) \<Rightarrow> nat \<Rightarrow> 'a vector_base \<Rightarrow> 'a vector_base \<Rightarrow> 'a vector_base option" where
  "operator_div_assign dv n self v =
     for_loop_opt 0 n
       (\<lambda>i self. case dv (data self ! i) (data v ! i) of
                    None \<Rightarrow> None
                  | Some q \<Rightarrow> Some (self\<lparr>data := (data self)[i := q]\<rparr>))
       self"

definition operator_div ::
  "('a \<Rightarrow> 'a \<Rightarrow> 'a option) \<Rightarrow> nat \<Rightarrow> 'a vector_base \<Rightarrow> 'a vector_base \<Rightarrow> 'a vector_base option" where
  "operator_div dv n lhs rhs = (let quot = lhs in operator_div_assign dv n quot rhs)"

subsection \<open>Methods\<close>

text \<open>\<open>is_zero\<close> leaves its loop at the first element that differs from 0.\<close>

function is_zero_from :: "nat \<Rightarrow> nat \<Rightarrow> 'a::zero vector_base \<Rightarrow> bool" where
  "is_zero_from i n self =
     (if i < n then (if data self ! i \<noteq> 0 then False else is_zero_from (Suc i) n self)
      else True)"
  by pat_completeness auto
termination
  by (relation "measure (\<lambda>(i, n, self). n - i)") auto

declare is_zero_from.simps [simp del]

definition is_zero :: "nat \<Rightarrow> 'a::zero vector_base \<Rightarrow> bool" where
  "is_zero n self = is_zero_from 0 n self"

definition dot :: "nat \<Rightarrow> 'a::{zero,plus,times} vector_base \<Rightarrow> 'a vector_base \<Rightarrow> 'a" where
  "dot n self v = for_loop 0 n (\<lambda>i sum. sum + data self ! i * data v ! i) 0"

definition length_sqr :: "nat \<Rightarrow> 'a::{zero,plus,times} vector_base \<Rightarrow> 'a" where
  "length_sqr n self = for_loop 0 n (\<lambda>i sum. sum + data self ! i * data self ! i) 0"

definition length_vec :: "('a \<Rightarrow> 'a) \<Rightarrow> nat \<Rightarrow> 'a::{zero,plus,times} vector_base \<Rightarrow> 'a" where
  "length_vec sq n self = sq (length_sqr n self)"

definition normalize_vec ::
  "('a \<Rightarrow> 'a \<Rightarrow> 'a option) \<Rightarrow> ('a \<Rightarrow> 'a) \<Rightarrow> nat \<Rightarrow> 'a::{zero,plus,times,ord} vector_base
     \<Rightarrow> 'a vector_base option" where
  "normalize_vec dv sq n self =
     (let l = length_vec sq n self in
      if 0 < l then
        for_loop_opt 0 n
          (\<lambda>i self. case dv (data self ! i) l of
                       None \<Rightarrow> None
                     | Some q \<Rightarrow> Some (self\<lparr>data := (data self)[i := q]\<rparr>))
          self
      else Some self)"

definition get_unit_vector ::
  "('a \<Rightarrow> 'a \<Rightarrow> 'a option) \<Rightarrow> ('a \<Rightarrow> 'a) \<Rightarrow> nat \<Rightarrow> 'a::{zero,plus,times,ord} vector_base
     \<Rightarrow> 'a vector_base option" where
  "get_unit_vector dv sq n self =
     (let l = length_vec sq n self;
          unit_vector = vector_base_default n in
      if 0 < l then
        for_loop_opt 0 n
          (\<lambda>i unit_vector. case dv (data self ! i) l of
                       None \<Rightarrow> None
                     | Some q \<Rightarrow> Some (unit_vector\<lparr>data := (data unit_vector)[i := q]\<rparr>))
          unit_vector
      else Some unit_vector)"

subsection \<open>vector3\<close>

text \<open>\<open>vector3(NumType x, NumType y, NumType z) : vector_base()\<close>.\<close>

definition vector3 :: "'a::zero \<Rightarrow> 'a \<Rightarrow> 'a \<Rightarrow> 'a vector_base" where
  "vector3 x y z =
     (let self = vector_base_default 3;
          self = self\<lparr>data := (data self)[0 := x]\<rparr>;
          self = self\<lparr>data := (data self)[1 := y]\<rparr>;
          self = self\<lparr>data := (data self)[2 := z]\<rparr>
      in self)"

definition x_val :: "'a vector_base \<Rightarrow> 'a" where
  "x_val self = data self ! 0"

definition y_val :: "'a vector_base \<Rightarrow> 'a" where
  "y_val self = data self ! 1"

definition z_val :: "'a vector_base \<Rightarrow> 'a" where
  "z_val self = data self ! 2"

text \<open>Assignment through the references that the non-const accessors return.\<close>

definition x_val_assign :: "'a vector_base \<Rightarrow> 'a \<Rightarrow> 'a vector_base" where
  "x_val_assign self a = self\<lparr>data := (data self)[0 := a]\<rparr>"

definition y_val_assign :: "'a vector_base \<Rightarrow> 'a \<Rightarrow> 'a vector_base" where
  "y_val_assign self a = self\<lparr>data := (data self)[1 := a]\<rparr>"

definition z_val_assign :: "'a vector_base \<Rightarrow> 'a \<Rightarrow> 'a vector_base" where
  "z_val_assign self a = self\<lparr>data := (data self)[2 := a]\<rparr>"

definition cross :: "'a::{zero,times,minus} vector_base \<Rightarrow> 'a vector_base \<Rightarrow> 'a vector_base" where
  "cross self v =
     (let cross_vector = vector_base_default 3;
          cross_vector = x_val_assign cross_vector (y_val self * z_val v - z_val self * y_val v);
          cross_vector = y_val_assign cross_vector (z_val self * x_val v - x_val self * z_val v);
          cross_vector = z_val_assign cross_vector (x_val self * y_val v - y_val self * x_val v)
      in cross_vector)"

subsection \<open>Diagnostic output\<close>

text \<open>
  \<open>printf\<close> appends to the standard output, a string that is passed through.
  \<open>fmt_d\<close> is the text that the conversion \<open>%d\<close> produces for an \<open>int\<close>; the
  conversion \<open>%f\<close> of a floating-point value is the parameter \<open>fmt_f\<close>.
\<close>

type_synonym stdout = string

definition digit_char :: "nat \<Rightarrow> char" where
  "digit_char d = ''0123456789'' ! d"

function dec_digits :: "nat \<Rightarrow> string" where
  "dec_digits x =
     (if x < 10 then [digit_char x] else dec_digits (x div 10) @ [digit_char (x mod 10)])"
  by pat_completeness auto
termination
  by (relation "measure id") auto

declare dec_digits.simps [simp del]

definition fmt_d :: "int \<Rightarrow> string" where
  "fmt_d x = (if x < 0 then CHR ''-'' # dec_digits (nat (- x)) else dec_digits (nat x))"

text \<open>The overload for \<open>std::is_integral<T>\<close>: \<open>printf("%d ", x)\<close>.\<close>

definition print_num_integral :: "int \<Rightarrow> stdout \<Rightarrow> stdout" where
  "print_num_integral x out = out @ fmt_d x @ '' ''"

text \<open>The overload for \<open>std::is_floating_point<T>\<close>: \<open>printf("%f ", x)\<close>.\<close>

definition print_num_floating :: "('a \<Rightarrow> string) \<Rightarrow> 'a \<Rightarrow> stdout \<Rightarrow> stdout" where
  "print_num_floating fmt_f x out = out @ fmt_f x @ '' ''"

text \<open>
  \<open>print(name)\<close>; the overload of \<open>print_num\<close> that the element type selects is
  the first argument.
\<close>

definition print ::
  "('a \<Rightarrow> stdout \<Rightarrow> stdout) \<Rightarrow> nat \<Rightarrow> string \<Rightarrow> 'a vector_base \<Rightarrow> stdout \<Rightarrow> stdout" where
  "print print_num n name self out =
     (let out = out @ name @ '': '';
          out = for_loop 0 n (\<lambda>i out. print_num (data self ! i) out) out
      in out @ [CHR 0x0A])"

subsection \<open>Element types\<close>

text \<open>
  The quotient of three element types: \<open>real\<close> (a floating-point type read
  exactly), \<open>int\<close> (a signed integer type away from overflow, whose quotient
  truncates towards zero) and \<open>32 word\<close> (\<open>unsigned int\<close>). A quotient by zero
  is not a real number, and for the integer types the language does not
  define it.
\<close>

definition div_real :: "real \<Rightarrow> real \<Rightarrow> real option" where
  "div_real x y = (if y = 0 then None else Some (x / y))"

definition div_int :: "int \<Rightarrow> int \<Rightarrow> int option" where
  "div_int x y = (if y = 0 then None else Some (sgn x * sgn y * (\<bar>x\<bar> div \<bar>y\<bar>)))"

definition div_u32 :: "32 word \<Rightarrow> 32 word \<Rightarrow> 32 word option" where
  "div_u32 x y = (if y = 0 then None else Some (x div y))"

text \<open>
  The square root for \<open>unsigned int\<close>. \<open>Kokkos::Experimental::sqrt\<close> converts
  an integral argument to \<open>double\<close> and takes the root there; the \<open>return\<close>
  of \<open>length\<close> converts the root back to \<open>NumType\<close>, which drops the
  fraction. \<open>isqrt_from k x\<close> counts up from \<open>k\<close> to the last number whose
  square is at most \<open>x\<close>. For \<open>real\<close> the square root is \<open>sqrt\<close>.
\<close>

function isqrt_from :: "nat \<Rightarrow> nat \<Rightarrow> nat" where
  "isqrt_from k x = (if (k + 1) * (k + 1) \<le> x then isqrt_from (k + 1) x else k)"
  by pat_completeness auto
termination
proof (relation "measure (\<lambda>(k, x). x - k)")
  show "wf (measure (\<lambda>(k, x). x - k))"
    by simp
next
  fix k x :: nat
  assume le: "(k + 1) * (k + 1) \<le> x"
  have "k + 1 \<le> (k + 1) * (k + 1)"
    by simp
  with le have "k < x"
    by linarith
  then show "((k + 1, x), (k, x)) \<in> measure (\<lambda>(k, x). x - k)"
    by simp
qed

declare isqrt_from.simps [simp del]

definition isqrt :: "nat \<Rightarrow> nat" where
  "isqrt x = isqrt_from 0 x"

definition sqrt_u32 :: "32 word \<Rightarrow> 32 word" where
  "sqrt_u32 x = of_nat (isqrt (unat x))"

section \<open>Facts about the loops\<close>

text \<open>
  The counting loop is a fold over the indices. A loop whose body rewrites
  element \<open>i\<close> from the old element \<open>i\<close> leaves the list of the new elements;
  if the body can fail, the loop fails exactly when one of its steps does.
\<close>

lemma for_loop_upt: "for_loop i n body s = fold body [i..<n] s"
proof (induction i n body s rule: for_loop.induct)
  case (1 i n body s)
  show ?case
  proof (cases "i < n")
    case True
    with 1 show ?thesis
      by (subst for_loop.simps) (simp add: upt_rec [of i n])
  next
    case False
    then show ?thesis
      by (subst for_loop.simps) simp
  qed
qed

lemma for_loop_elementwise:
  fixes s :: "'a vector_base"
  shows "length (data s) = n \<Longrightarrow> i \<le> n \<Longrightarrow>
   for_loop i n (\<lambda>i s. s\<lparr>data := (data s)[i := f i (data s ! i)]\<rparr>) s
     = \<lparr>data = take i (data s) @ map (\<lambda>j. f j (data s ! j)) [i..<n]\<rparr>"
proof (induction i n "\<lambda>i (s::'a vector_base). s\<lparr>data := (data s)[i := f i (data s ! i)]\<rparr>" s rule: for_loop.induct)
  case (1 i n s)
  show ?case
  proof (cases "i < n")
    case True
    define xs where "xs = (data s)[i := f i (data s ! i)]"
    have len: "length xs = n" using 1 by (simp add: xs_def)
    have ih: "for_loop (Suc i) n (\<lambda>i s. s\<lparr>data := (data s)[i := f i (data s ! i)]\<rparr>) (s\<lparr>data := xs\<rparr>)
       = \<lparr>data = take (Suc i) xs @ map (\<lambda>j. f j (xs ! j)) [Suc i..<n]\<rparr>"
    proof -
      have "length (data (s\<lparr>data := xs\<rparr>)) = n"
        by (simp add: len)
      from 1(1)[OF True, folded xs_def, OF this] True show ?thesis
        by simp
    qed
    have m: "map (\<lambda>j. f j (xs ! j)) [Suc i..<n] = map (\<lambda>j. f j (data s ! j)) [Suc i..<n]"
      by (rule map_cong) (auto simp: xs_def)
    have t: "take (Suc i) xs = take i (data s) @ [f i (data s ! i)]"
      using True 1(2) by (simp add: xs_def take_Suc_conv_app_nth)
    have "for_loop i n (\<lambda>i s. s\<lparr>data := (data s)[i := f i (data s ! i)]\<rparr>) s
        = for_loop (Suc i) n (\<lambda>i s. s\<lparr>data := (data s)[i := f i (data s ! i)]\<rparr>) (s\<lparr>data := xs\<rparr>)"
      by (subst for_loop.simps) (simp add: True xs_def)
    also have "\<dots> = \<lparr>data = take i (data s) @ map (\<lambda>j. f j (data s ! j)) [i..<n]\<rparr>"
      by (simp add: ih m t upt_rec[of i n] True del: upt.simps)
    finally show ?thesis .
  next
    case False
    with 1 have "i = n" by simp
    then show ?thesis using 1(2)
      by (subst for_loop.simps) simp
  qed
qed

lemma for_loop_opt_elementwise:
  fixes s :: "'a vector_base"
  shows "length (data s) = n \<Longrightarrow> i \<le> n \<Longrightarrow>
   for_loop_opt i n (\<lambda>i s. case h i (data s ! i) of None \<Rightarrow> None
                            | Some q \<Rightarrow> Some (s\<lparr>data := (data s)[i := q]\<rparr>)) s
     = (if \<exists>j. i \<le> j \<and> j < n \<and> h j (data s ! j) = None then None
        else Some \<lparr>data = take i (data s) @ map (\<lambda>j. the (h j (data s ! j))) [i..<n]\<rparr>)"
  (is "_ \<Longrightarrow> _ \<Longrightarrow> for_loop_opt i n ?body s = _")
proof (induction i n ?body s rule: for_loop_opt.induct)
  case (1 i n s)
  show ?case
  proof (cases "i < n")
    case True
    show ?thesis
    proof (cases "h i (data s ! i)")
      case None
      then have "\<exists>j. i \<le> j \<and> j < n \<and> h j (data s ! j) = None"
        using True by auto
      then show ?thesis
        by (subst for_loop_opt.simps) (simp add: True None)
    next
      case (Some q)
      define xs where "xs = (data s)[i := q]"
      have len: "length xs = n" using 1 by (simp add: xs_def)
      have same: "\<And>j. Suc i \<le> j \<Longrightarrow> xs ! j = data s ! j"
        by (simp add: xs_def)
      have ih: "for_loop_opt (Suc i) n ?body (s\<lparr>data := xs\<rparr>)
         = (if \<exists>j. Suc i \<le> j \<and> j < n \<and> h j (xs ! j) = None then None
            else Some \<lparr>data = take (Suc i) xs @ map (\<lambda>j. the (h j (xs ! j))) [Suc i..<n]\<rparr>)"
      proof -
        have b: "?body i s = Some (s\<lparr>data := xs\<rparr>)"
          by (simp add: Some xs_def)
        have d: "data (s\<lparr>data := xs\<rparr>) = xs"
          by simp
        have "length (data (s\<lparr>data := xs\<rparr>)) = n"
          by (simp add: len)
        from 1(1)[OF True b this Suc_leI[OF True]] show ?thesis
          unfolding d .
      qed
      have ex: "(\<exists>j. Suc i \<le> j \<and> j < n \<and> h j (xs ! j) = None)
            \<longleftrightarrow> (\<exists>j. i \<le> j \<and> j < n \<and> h j (data s ! j) = None)"
      proof
        assume "\<exists>j. Suc i \<le> j \<and> j < n \<and> h j (xs ! j) = None"
        then obtain j where "Suc i \<le> j" "j < n" "h j (xs ! j) = None" by blast
        then show "\<exists>j. i \<le> j \<and> j < n \<and> h j (data s ! j) = None"
          using same[of j] by (intro exI[of _ j]) simp
      next
        assume "\<exists>j. i \<le> j \<and> j < n \<and> h j (data s ! j) = None"
        then obtain j where j: "i \<le> j" "j < n" "h j (data s ! j) = None" by blast
        with Some have "j \<noteq> i" by auto
        with j have "Suc i \<le> j" by simp
        then show "\<exists>j. Suc i \<le> j \<and> j < n \<and> h j (xs ! j) = None"
          using j same[of j] by (intro exI[of _ j]) simp
      qed
      have m: "map (\<lambda>j. the (h j (xs ! j))) [Suc i..<n] = map (\<lambda>j. the (h j (data s ! j))) [Suc i..<n]"
        by (rule map_cong) (auto simp: same)
      have t: "take (Suc i) xs = take i (data s) @ [the (h i (data s ! i))]"
        using True 1(2) Some by (simp add: xs_def take_Suc_conv_app_nth)
      have "for_loop_opt i n ?body s = for_loop_opt (Suc i) n ?body (s\<lparr>data := xs\<rparr>)"
        by (subst for_loop_opt.simps) (simp add: True Some xs_def)
      also have "\<dots> = (if \<exists>j. i \<le> j \<and> j < n \<and> h j (data s ! j) = None then None
        else Some \<lparr>data = take i (data s) @ map (\<lambda>j. the (h j (data s ! j))) [i..<n]\<rparr>)"
        unfolding ih ex by (auto simp: m t upt_rec[of i n] True simp del: upt.simps)
      finally show ?thesis .
    qed
  next
    case False
    with 1 have "i = n" by simp
    then show ?thesis using 1(2)
      by (subst for_loop_opt.simps) simp
  qed
qed

lemma for_loop_map:
  fixes s :: "'a vector_base"
  assumes "length (data s) = n"
  shows "for_loop 0 n (\<lambda>i s. s\<lparr>data := (data s)[i := f i (data s ! i)]\<rparr>) s
     = \<lparr>data = map (\<lambda>j. f j (data s ! j)) [0..<n]\<rparr>"
  using for_loop_elementwise[OF assms, of 0 f] by simp

lemma for_loop_opt_map:
  fixes s :: "'a vector_base"
  assumes "length (data s) = n"
  shows "for_loop_opt 0 n (\<lambda>i s. case h i (data s ! i) of None \<Rightarrow> None
                            | Some q \<Rightarrow> Some (s\<lparr>data := (data s)[i := q]\<rparr>)) s
     = (if \<exists>j<n. h j (data s ! j) = None then None
        else Some \<lparr>data = map (\<lambda>j. the (h j (data s ! j))) [0..<n]\<rparr>)"
  using for_loop_opt_elementwise[OF assms, of 0 h] by simp

lemma fold_sum:
  fixes f :: "nat \<Rightarrow> 'a::comm_monoid_add"
  shows "fold (\<lambda>i sum. sum + f i) [0..<n] 0 = (\<Sum>j<n. f j)"
  by (induction n) simp_all

lemma upt3: "[0..<3] = [0, 1, 2]"
  by (simp add: numeral_3_eq_3)

section \<open>The operations in closed form\<close>

subsection \<open>Constructors\<close>

lemma vector_base_default_data: "data (vector_base_default n) = replicate n 0"
  by (simp add: vector_base_default_def)

lemma default3: "vector_base_default 3 = \<lparr>data = [0, 0, 0]\<rparr>"
  by (simp add: vector_base_default_def numeral_3_eq_3)

lemma vector_base_val_data: "vector_base_val n v = \<lparr>data = replicate n v\<rparr>"
proof -
  have "vector_base_val n v = \<lparr>data = map (\<lambda>j. v) [0..<n]\<rparr>"
    unfolding vector_base_val_def
    using for_loop_map [of "vector_base_default n" n "\<lambda>j x. v"]
    by (simp add: vector_base_default_data)
  then show ?thesis
    by (simp add: map_replicate_const)
qed

lemma vector_base_arr_data:
  assumes "n \<le> length arr"
  shows "vector_base_arr n arr = Some \<lparr>data = take n arr\<rparr>"
proof -
  have "for_loop 0 n (\<lambda>i self. self\<lparr>data := (data self)[i := arr ! i]\<rparr>) (vector_base_default n)
      = \<lparr>data = map (\<lambda>j. arr ! j) [0..<n]\<rparr>"
    using for_loop_map [of "vector_base_default n" n "\<lambda>j x. arr ! j"]
    by (simp add: vector_base_default_data)
  moreover have "map (\<lambda>j. arr ! j) [0..<n] = take n arr"
    using assms by (intro nth_equalityI) simp_all
  ultimately show ?thesis
    using assms by (simp add: vector_base_arr_def)
qed

lemma vector3_data: "vector3 x y z = \<lparr>data = [x, y, z]\<rparr>"
  by (simp add: vector3_def default3)

subsection \<open>Operators\<close>

lemma operator_plus_data:
  fixes a b :: "'a::plus vector_base"
  assumes "length (data a) = n"
  shows "operator_plus n a b = \<lparr>data = map (\<lambda>j. data a ! j + data b ! j) [0..<n]\<rparr>"
  unfolding operator_plus_def operator_plus_assign_def Let_def
  using for_loop_map[OF assms, of "\<lambda>j x. x + data b ! j"] by simp

lemma operator_minus_data:
  fixes a b :: "'a::minus vector_base"
  assumes "length (data a) = n"
  shows "operator_minus n a b = \<lparr>data = map (\<lambda>j. data a ! j - data b ! j) [0..<n]\<rparr>"
  unfolding operator_minus_def operator_minus_assign_def Let_def
  using for_loop_map[OF assms, of "\<lambda>j x. x - data b ! j"] by simp

lemma operator_times_data:
  fixes a b :: "'a::times vector_base"
  assumes "length (data a) = n"
  shows "operator_times n a b = \<lparr>data = map (\<lambda>j. data a ! j * data b ! j) [0..<n]\<rparr>"
  unfolding operator_times_def operator_times_assign_def Let_def
  using for_loop_map[OF assms, of "\<lambda>j x. x * data b ! j"] by simp

lemma operator_neg_data:
  fixes a :: "'a::{times,uminus,one} vector_base"
  assumes "length (data a) = n"
  shows "operator_neg n a = \<lparr>data = map (\<lambda>j. data a ! j * (- 1)) [0..<n]\<rparr>"
  unfolding operator_neg_def Let_def
  using for_loop_map[OF assms, of "\<lambda>j x. x * (- 1)"] by simp

lemma operator_neg_uminus:
  fixes a :: "'a::ring_1 vector_base"
  assumes "length (data a) = n"
  shows "operator_neg n a = \<lparr>data = map uminus (data a)\<rparr>"
proof -
  have "map (\<lambda>j. data a ! j * (- 1)) [0..<n] = map uminus (data a)"
    using assms by (intro nth_equalityI) simp_all
  then show ?thesis
    by (simp add: operator_neg_data [OF assms])
qed

lemma operator_div_data:
  fixes a b :: "'a vector_base"
  assumes "length (data a) = n"
  shows "operator_div dv n a b =
     (if \<exists>j<n. dv (data a ! j) (data b ! j) = None then None
      else Some \<lparr>data = map (\<lambda>j. the (dv (data a ! j) (data b ! j))) [0..<n]\<rparr>)"
  unfolding operator_div_def operator_div_assign_def Let_def
  using for_loop_opt_map[OF assms, of "\<lambda>j x. dv x (data b ! j)"] by simp

subsection \<open>Methods\<close>

lemma dot_sum:
  fixes a b :: "'a::semiring_0 vector_base"
  shows "dot n a b = (\<Sum>j<n. data a ! j * data b ! j)"
  by (simp add: dot_def for_loop_upt fold_sum)

lemma length_sqr_sum:
  fixes a :: "'a::semiring_0 vector_base"
  shows "length_sqr n a = (\<Sum>j<n. data a ! j * data a ! j)"
  by (simp add: length_sqr_def for_loop_upt fold_sum)

lemma dot_3:
  fixes a b :: "'a::{zero,plus,times} vector_base"
  shows "dot 3 a b = 0 + data a ! 0 * data b ! 0 + data a ! 1 * data b ! 1 + data a ! 2 * data b ! 2"
  by (simp add: dot_def for_loop_upt upt3)

lemma length_sqr_3:
  fixes a :: "'a::{zero,plus,times} vector_base"
  shows "length_sqr 3 a = 0 + data a ! 0 * data a ! 0 + data a ! 1 * data a ! 1 + data a ! 2 * data a ! 2"
  by (simp add: length_sqr_def for_loop_upt upt3)

lemma is_zero_from_iff:
  "is_zero_from i n a \<longleftrightarrow> (\<forall>j. i \<le> j \<and> j < n \<longrightarrow> data a ! j = 0)"
proof (induction i n a rule: is_zero_from.induct)
  case (1 i n a)
  show ?case
  proof (cases "i < n")
    case True
    show ?thesis
    proof (cases "data a ! i = 0")
      case z: True
      have e: "is_zero_from i n a = is_zero_from (Suc i) n a"
        by (subst is_zero_from.simps) (simp add: True z)
      have "(\<forall>j. Suc i \<le> j \<and> j < n \<longrightarrow> data a ! j = 0) \<longleftrightarrow> (\<forall>j. i \<le> j \<and> j < n \<longrightarrow> data a ! j = 0)"
        using z by (metis Suc_leD Suc_leI le_neq_implies_less)
      with 1 [OF True] z show ?thesis
        unfolding e by simp
    next
      case False
      then have "\<not> is_zero_from i n a"
        by (subst is_zero_from.simps) (simp add: True)
      with False True show ?thesis
        by auto
    qed
  next
    case False
    then have "is_zero_from i n a"
      by (subst is_zero_from.simps) simp
    with False show ?thesis
      by auto
  qed
qed

lemma is_zero_iff:
  fixes a :: "'a::zero vector_base"
  assumes "length (data a) = n"
  shows "is_zero n a \<longleftrightarrow> a = vector_base_default n"
proof -
  have "(\<forall>j<n. data a ! j = 0) \<longleftrightarrow> data a = replicate n 0"
    using assms by (auto simp: list_eq_iff_nth_eq)
  then show ?thesis
    by (auto simp: is_zero_def is_zero_from_iff vector_base_default_def vector_base.equality)
qed

lemma length_vec_zero_vector:
  fixes sq :: "'a::semiring_0 \<Rightarrow> 'a"
  assumes "sq 0 = 0"
  shows "length_vec sq n (vector_base_default n) = 0"
  by (simp add: length_vec_def length_sqr_sum vector_base_default_data assms)

lemma normalize_vec_data:
  fixes a :: "'a::{zero,plus,times,ord} vector_base"
  assumes "length (data a) = n"
  shows "normalize_vec dv sq n a =
     (if 0 < length_vec sq n a then
        (if \<exists>j<n. dv (data a ! j) (length_vec sq n a) = None then None
         else Some \<lparr>data = map (\<lambda>j. the (dv (data a ! j) (length_vec sq n a))) [0..<n]\<rparr>)
      else Some a)"
  unfolding normalize_vec_def Let_def
  using for_loop_opt_map [OF assms, of "\<lambda>j x. dv x (length_vec sq n a)"] by simp

lemma get_unit_vector_data:
  fixes a :: "'a::{zero,plus,times,ord} vector_base"
  shows "get_unit_vector dv sq n a =
     (if 0 < length_vec sq n a then
        (if \<exists>j<n. dv (data a ! j) (length_vec sq n a) = None then None
         else Some \<lparr>data = map (\<lambda>j. the (dv (data a ! j) (length_vec sq n a))) [0..<n]\<rparr>)
      else Some (vector_base_default n))"
  unfolding get_unit_vector_def Let_def
  using for_loop_opt_map [of "vector_base_default n :: 'a vector_base" n
      "\<lambda>j x. dv (data a ! j) (length_vec sq n a)"]
  by (simp add: vector_base_default_data)

lemma zero_vector_guard:
  fixes a :: "'a::{semiring_0,preorder} vector_base"
  assumes "length (data a) = n" and "is_zero n a" and "sq 0 = 0"
  shows "normalize_vec dv sq n a = Some a \<and> get_unit_vector dv sq n a = Some a"
proof -
  from assms(1,2) have a: "a = vector_base_default n"
    by (simp add: is_zero_iff)
  have "length_vec sq n a = 0"
    unfolding a by (rule length_vec_zero_vector) (rule assms(3))
  then have "normalize_vec dv sq n a = Some a"
    and "get_unit_vector dv sq n a = Some (vector_base_default n)"
    by (simp_all add: normalize_vec_def get_unit_vector_def)
  with a show ?thesis
    by simp
qed

lemma cross_data:
  "cross a b = \<lparr>data = [y_val a * z_val b - z_val a * y_val b,
                        z_val a * x_val b - x_val a * z_val b,
                        x_val a * y_val b - y_val a * x_val b]\<rparr>"
  by (simp add: cross_def default3 x_val_assign_def y_val_assign_def z_val_assign_def)

subsection \<open>Diagnostic output\<close>

lemma print_loop:
  assumes "\<And>x out. pn x out = out @ g x"
  shows "fold (\<lambda>i out. pn (xs ! i) out) [0..<n] out = out @ concat (map (\<lambda>j. g (xs ! j)) [0..<n])"
  by (induction n) (simp_all add: assms)

lemma print_data:
  assumes "\<And>x out. pn x out = out @ g x" and "length (data v) = n"
  shows "print pn n name v out = out @ name @ '': '' @ concat (map g (data v)) @ [CHR 0x0A]"
proof -
  have "map (\<lambda>j. g (data v ! j)) [0..<n] = map g (data v)"
    using assms(2) by (intro nth_equalityI) simp_all
  then show ?thesis
    by (simp add: print_def for_loop_upt print_loop [of pn g, OF assms(1)])
qed

lemma fmt_d_digit: "fmt_d 1 = ''1''" "fmt_d 2 = ''2''" "fmt_d 3 = ''3''"
  by (simp_all add: fmt_d_def dec_digits.simps digit_char_def)

section \<open>The element types\<close>



lemma isqrt_0: "isqrt 0 = 0"
  by (simp add: isqrt_def isqrt_from.simps)





lemma length_vec_real_3_4_0: "length_vec sqrt 3 (vector3 3 4 0) = 5"
proof -
  have "sqrt 25 = sqrt (5\<^sup>2)"
    by simp
  then have "sqrt 25 = \<bar>5\<bar>"
    by (simp only: real_sqrt_abs)
  then show ?thesis
    by (simp add: length_vec_def length_sqr_3 vector3_data)
qed

lemma real_length_not_positive:
  fixes a :: "real vector_base"
  assumes "length (data a) = n" and "\<not> 0 < length_vec sqrt n a"
  shows "a = vector_base_default n"
proof -
  have "(\<Sum>j<n. data a ! j * data a ! j) \<le> 0"
    using assms(2) by (simp add: length_vec_def length_sqr_sum not_less)
  moreover have "0 \<le> (\<Sum>j<n. data a ! j * data a ! j)"
    by (intro sum_nonneg) simp
  ultimately have "(\<Sum>j<n. data a ! j * data a ! j) = 0"
    by simp
  then have "\<forall>j<n. data a ! j = 0"
    by (simp add: sum_nonneg_eq_0_iff)
  then have "data a = replicate n 0"
    using assms(1) by (auto simp: list_eq_iff_nth_eq)
  then show ?thesis
    by (simp add: vector_base_default_def vector_base.equality)
qed

lemma real_normalize_is_unit_vector:
  fixes a :: "real vector_base"
  assumes "length (data a) = n"
  shows "normalize_vec dv sqrt n a = get_unit_vector dv sqrt n a"
  using real_length_not_positive [OF assms]
  by (auto simp: normalize_vec_data [OF assms] get_unit_vector_data)

section \<open>Scenarios of the specification\<close>

text \<open>
  \<open>vector3(0,0,0).is_zero()\<close> holds and \<open>vector3(0,0,1).is_zero()\<close> does not;
  \<open>vector<int,4>(2) + vector<int,4>(3)\<close> is \<open>vector<int,4>(5)\<close>.
\<close>

lemma scenario_is_zero:
  "is_zero 3 (vector3 0 0 (0::int))" "\<not> is_zero 3 (vector3 0 0 (1::int))"
  by (simp_all add: is_zero_iff vector3_data default3)

lemma scenario_plus:
  "operator_plus 4 (vector_base_val 4 2) (vector_base_val 4 3) = vector_base_val 4 (5::int)"
proof -
  have "map (\<lambda>j. replicate 4 (2::int) ! j + replicate 4 3 ! j) [0..<4] = replicate 4 5"
    by (intro nth_equalityI) simp_all
  then show ?thesis
    by (simp add: operator_plus_data vector_base_val_data)
qed

section \<open>Cross product\<close>

text \<open>
  C1. For all \<open>a\<close> and \<open>b\<close>, \<open>a.cross(b)\<close> is a 3-component vector with
  x = a.y*b.z - a.z*b.y, y = a.z*b.x - a.x*b.z and z = a.x*b.y - a.y*b.x;
  and \<open>vector3(1,0,0).cross(vector3(0,1,0))\<close> is \<open>vector3(0,0,1)\<close>.
\<close>

theorem cross_formula:
  fixes a b :: "'a::{zero,times,minus} vector_base"
  shows "cross a b = vector3 (y_val a * z_val b - z_val a * y_val b)
                             (z_val a * x_val b - x_val a * z_val b)
                             (x_val a * y_val b - y_val a * x_val b)
       \<and> x_val (cross a b) = y_val a * z_val b - z_val a * y_val b
       \<and> y_val (cross a b) = z_val a * x_val b - x_val a * z_val b
       \<and> z_val (cross a b) = x_val a * y_val b - y_val a * x_val b
       \<and> cross (vector3 1 0 0) (vector3 0 1 0) = (vector3 0 0 1 :: int vector_base)"
  by (simp add: cross_data vector3_data x_val_def y_val_def z_val_def)

section \<open>The guard on a zero length\<close>

text \<open>
  C2. For a vector \<open>a\<close> whose \<open>length()\<close> is zero, \<open>a.normalize()\<close> returns with
  \<open>a\<close> unchanged and \<open>a.get_unit_vector()\<close> returns the zero vector. No
  division takes place: the statement holds for every element quotient \<open>dv\<close>,
  also for one that never has a result.
\<close>

theorem zero_length_guard:
  fixes a :: "'a::{zero,plus,times,preorder} vector_base"
  assumes "length_vec sq n a = 0"
  shows "normalize_vec dv sq n a = Some a
       \<and> get_unit_vector dv sq n a = Some (vector_base_default n)"
  using assms by (simp add: normalize_vec_def get_unit_vector_def)

theorem zero_length_guard_witness:
  "length_vec sqrt 3 (vector3 0 0 0) = 0
     \<and> normalize_vec (\<lambda>x y. None) sqrt 3 (vector3 0 0 0) = Some (vector3 0 0 0)
     \<and> get_unit_vector (\<lambda>x y. None) sqrt 3 (vector3 0 0 0) = Some (vector3 0 0 0)"
proof -
  have l: "length_vec sqrt 3 (vector3 0 0 0) = 0"
    by (simp add: length_vec_def length_sqr_3 vector3_data)
  from zero_length_guard [OF l, of "\<lambda>x y. None"] l show ?thesis
    by (simp add: vector3_data default3)
qed

section \<open>Element-wise operators\<close>

text \<open>
  C3. For vectors \<open>a\<close> and \<open>b\<close> of the same concrete type and every index
  \<open>i < N\<close>: \<open>(a+b)[i] = a[i]+b[i]\<close>, \<open>(a-b)[i] = a[i]-b[i]\<close>,
  \<open>(a*b)[i] = a[i]*b[i]\<close> (the product of the two elements, not a dot product)
  and \<open>(a/b)[i] = a[i]/b[i]\<close>, each result being a vector of the same size.
  For the quotient: \<open>a/b\<close> has no result exactly when one of the \<open>N\<close> element
  quotients has none, and the result it has holds the element quotients.
\<close>

theorem elementwise_operators:
  fixes a b :: "'a::{plus,minus,times} vector_base"
  assumes "length (data a) = n" and "length (data b) = n" and "i < n"
  shows "length (data (operator_plus n a b)) = n
       \<and> data (operator_plus n a b) ! i = data a ! i + data b ! i
       \<and> length (data (operator_minus n a b)) = n
       \<and> data (operator_minus n a b) ! i = data a ! i - data b ! i
       \<and> length (data (operator_times n a b)) = n
       \<and> data (operator_times n a b) ! i = data a ! i * data b ! i
       \<and> (operator_div dv n a b = None \<longleftrightarrow> (\<exists>j<n. dv (data a ! j) (data b ! j) = None))
       \<and> (\<forall>c. operator_div dv n a b = Some c \<longrightarrow>
             length (data c) = n \<and> dv (data a ! i) (data b ! i) = Some (data c ! i))"
proof -
  have "dv (data a ! i) (data b ! i) \<noteq> None" if "\<not> (\<exists>j<n. dv (data a ! j) (data b ! j) = None)"
    using that assms(3) by auto
  then show ?thesis
    using assms(1,3)
    by (auto simp: operator_plus_data operator_minus_data operator_times_data operator_div_data
        split: if_splits)
qed

theorem elementwise_operators_witness:
  "length (data (vector3 2 0 0 :: int vector_base)) = 3
     \<and> length (data (vector3 2 2 2 :: int vector_base)) = 3 \<and> (0::nat) < 3
     \<and> data (operator_plus 3 (vector3 2 0 0) (vector3 2 2 2)) ! 0 = (4::int)
     \<and> data (operator_minus 3 (vector3 2 0 0) (vector3 2 2 2)) ! 0 = (0::int)
     \<and> data (operator_times 3 (vector3 2 0 0) (vector3 2 2 2)) ! 0 = (4::int)
     \<and> operator_div div_int 3 (vector3 2 0 0) (vector3 2 2 2) = Some (vector3 1 0 0)
     \<and> div_int (data (vector3 2 0 0) ! 0) (data (vector3 2 2 2) ! 0) = Some (data (vector3 1 0 0) ! 0)"
proof -
  have a: "length (data (vector3 2 0 0 :: int vector_base)) = 3"
    and b: "length (data (vector3 2 2 2 :: int vector_base)) = 3"
    by (simp_all add: vector3_data)
  have i: "(0::nat) < 3"
    by simp
  have q: "operator_div div_int 3 (vector3 2 0 0) (vector3 2 2 2) = Some (vector3 1 0 0)"
    by (simp add: operator_div_def operator_div_assign_def for_loop_opt.simps vector3_data
        div_int_def)
  note t = elementwise_operators [OF a b i, of div_int]
  from t have "data (operator_plus 3 (vector3 2 0 0) (vector3 2 2 2)) ! 0 = (4::int)"
    by (simp add: vector3_data)
  moreover from t have "data (operator_minus 3 (vector3 2 0 0) (vector3 2 2 2)) ! 0 = (0::int)"
    by (simp add: vector3_data)
  moreover from t have "data (operator_times 3 (vector3 2 0 0) (vector3 2 2 2)) ! 0 = (4::int)"
    by (simp add: vector3_data)
  moreover from t q have "div_int (data (vector3 2 0 0) ! 0) (data (vector3 2 2 2) ! 0)
      = Some (data (vector3 1 0 0) ! 0)"
    by blast
  ultimately show ?thesis
    using a b i q by simp
qed

section \<open>Dot product\<close>

text \<open>
  C4. For vectors \<open>a\<close> and \<open>b\<close> of the same concrete type \<open>a.dot(b)\<close> equals
  \<open>b.dot(a)\<close>, and \<open>a.length_sqr()\<close> equals \<open>a.dot(a)\<close>, the two being computed
  by loops of their own. Only the commutativity of the element product is
  used.
\<close>

theorem dot_symmetric:
  fixes a b :: "'a::{zero,plus,ab_semigroup_mult} vector_base"
  shows "dot n a b = dot n b a \<and> length_sqr n a = dot n a a"
  by (simp add: dot_def length_sqr_def mult.commute)

section \<open>Algebra of the cross product\<close>

text \<open>
  C5. Over a commutative ring of elements (exact arithmetic), for all 3-vectors
  \<open>a\<close> and \<open>b\<close>: \<open>a.cross(b)\<close> equals \<open>-(b.cross(a))\<close>, \<open>a.cross(a)\<close> is the zero
  vector, and \<open>a.cross(b).dot(a)\<close> and \<open>a.cross(b).dot(b)\<close> are both 0.
\<close>

theorem cross_identities:
  fixes a b :: "'a::comm_ring_1 vector_base"
  shows "cross a b = operator_neg 3 (cross b a)
       \<and> cross a a = vector_base_default 3
       \<and> dot 3 (cross a b) a = 0
       \<and> dot 3 (cross a b) b = 0"
proof -
  have neg: "cross a b = operator_neg 3 (cross b a)"
    by (simp add: operator_neg_data [of _ 3] cross_data upt3)
  have self: "cross a a = vector_base_default 3"
    by (simp add: cross_data default3 mult.commute)
  have "dot 3 (cross a b) a = 0" "dot 3 (cross a b) b = 0"
    by (simp_all add: dot_3 cross_data x_val_def y_val_def z_val_def algebra_simps)
  with neg self show ?thesis
    by simp
qed

section \<open>Laws of addition\<close>

text \<open>
  C6. Over a ring of elements (exact arithmetic), for vectors \<open>a\<close>, \<open>b\<close>, \<open>c\<close> of
  the same concrete type: \<open>a+b = b+a\<close>, \<open>(a+b)+c = a+(b+c)\<close>, unary minus
  gives the vector of the negated elements, and \<open>a + (-a)\<close> is the zero vector.
\<close>

theorem addition_laws:
  fixes a b c :: "'a::ring_1 vector_base"
  assumes "length (data a) = n" and "length (data b) = n" and "length (data c) = n"
  shows "operator_plus n a b = operator_plus n b a
       \<and> operator_plus n (operator_plus n a b) c = operator_plus n a (operator_plus n b c)
       \<and> data (operator_neg n a) = map uminus (data a)
       \<and> operator_plus n a (operator_neg n a) = vector_base_default n"
proof -
  have comm: "operator_plus n a b = operator_plus n b a"
    by (simp add: operator_plus_data assms add.commute)
  have assoc: "operator_plus n (operator_plus n a b) c = operator_plus n a (operator_plus n b c)"
    by (simp add: operator_plus_data assms add.assoc)
  have "map (\<lambda>j. data a ! j + map uminus (data a) ! j) [0..<n] = replicate n 0"
    using assms(1) by (intro nth_equalityI) simp_all
  then have inv: "operator_plus n a (operator_neg n a) = vector_base_default n"
    using assms(1)
    by (simp add: operator_plus_data operator_neg_uminus vector_base_default_def)
  from comm assoc inv show ?thesis
    by (simp add: operator_neg_uminus assms)
qed

theorem addition_laws_witness:
  "length (data (vector3 1 2 3 :: int vector_base)) = 3
     \<and> operator_plus 3 (vector3 1 2 3) (vector3 4 5 6) = (vector3 5 7 9 :: int vector_base)
     \<and> operator_plus 3 (vector3 4 5 6) (vector3 1 2 3) = (vector3 5 7 9 :: int vector_base)
     \<and> operator_plus 3 (operator_plus 3 (vector3 1 2 3) (vector3 4 5 6)) (vector3 7 8 9)
         = operator_plus 3 (vector3 1 2 3) (operator_plus 3 (vector3 4 5 6) (vector3 7 8 (9::int)))
     \<and> operator_neg 3 (vector3 1 2 3) = (vector3 (- 1) (- 2) (- 3) :: int vector_base)
     \<and> operator_plus 3 (vector3 1 2 3) (operator_neg 3 (vector3 1 2 3)) = (vector3 0 0 0 :: int vector_base)"
proof -
  have l: "length (data (vector3 x y z :: int vector_base)) = 3" for x y z
    by (simp add: vector3_data)
  note t = addition_laws [OF l l l, of 1 2 3 4 5 6 7 8 9]
  have p: "operator_plus 3 (vector3 1 2 3) (vector3 4 5 6) = (vector3 5 7 9 :: int vector_base)"
    by (simp add: operator_plus_data l vector3_data upt3)
  from t p have c: "operator_plus 3 (vector3 4 5 6) (vector3 1 2 3) = (vector3 5 7 9 :: int vector_base)"
    by simp
  from t have s: "operator_plus 3 (operator_plus 3 (vector3 1 2 3) (vector3 4 5 6)) (vector3 7 8 9)
         = operator_plus 3 (vector3 1 2 3) (operator_plus 3 (vector3 4 5 6) (vector3 7 8 (9::int)))"
    by blast
  from t have "data (operator_neg 3 (vector3 1 2 3 :: int vector_base)) = map uminus (data (vector3 1 2 3))"
    by blast
  then have n: "operator_neg 3 (vector3 1 2 3) = (vector3 (- 1) (- 2) (- 3) :: int vector_base)"
    by (simp add: vector3_data vector_base.equality)
  from t have "operator_plus 3 (vector3 1 2 3) (operator_neg 3 (vector3 1 2 3))
      = (vector_base_default 3 :: int vector_base)"
    by blast
  then have z: "operator_plus 3 (vector3 1 2 3) (operator_neg 3 (vector3 1 2 3))
      = (vector3 0 0 0 :: int vector_base)"
    by (simp add: vector3_data default3)
  from l p c s n z show ?thesis
    by (intro conjI)
qed

section \<open>Length\<close>



section \<open>Construction\<close>

text \<open>
  C8. Default construction gives \<open>N\<close> elements that are all the zero of the
  element type; construction from a scalar \<open>v\<close> sets every element to \<open>v\<close>;
  \<open>vector3(x, y, z)\<close> sets the elements 0, 1, 2 to \<open>x\<close>, \<open>y\<close>, \<open>z\<close>, which is
  what construction from the sequence \<open>[x, y, z]\<close> gives.
\<close>

theorem constructors:
  fixes v x y z :: "'a::zero"
  assumes "i < n"
  shows "length (data (vector_base_default n :: 'a vector_base)) = n
       \<and> data (vector_base_default n :: 'a vector_base) ! i = 0
       \<and> length (data (vector_base_val n v)) = n
       \<and> data (vector_base_val n v) ! i = v
       \<and> length (data (vector3 x y z)) = 3
       \<and> x_val (vector3 x y z) = x \<and> y_val (vector3 x y z) = y \<and> z_val (vector3 x y z) = z
       \<and> vector_base_arr 3 [x, y, z] = Some (vector3 x y z)"
  using assms
  by (simp add: vector_base_default_data vector_base_val_data vector3_data vector_base_arr_data
      x_val_def y_val_def z_val_def)

theorem constructors_witness:
  "(2::nat) < 4
     \<and> data (vector_base_default 4 :: int vector_base) ! 2 = 0
     \<and> data (vector_base_val 4 (7::int)) ! 2 = 7
     \<and> vector_base_arr 3 [1, 2, 3] = Some (vector3 1 2 (3::int))"
proof -
  have i: "(2::nat) < 4"
    by simp
  from constructors [OF i, of "7::int" 1 2 3] i show ?thesis
    by simp
qed

section \<open>Diagnostic print\<close>

text \<open>
  C9. \<open>print(name)\<close> writes the name, then \<open>": "\<close>, then every element as the
  overload of \<open>print_num\<close> for its kind formats it, each followed by one
  space, then a newline. For an integral element type, printing
  \<open>vector3(1,2,3)\<close> under the name \<open>"v"\<close> writes \<open>"v: 1 2 3 \n"\<close>.
\<close>

theorem print_output:
  fixes v :: "int vector_base" and w :: "'a vector_base"
  assumes "length (data v) = n" and "length (data w) = n"
  shows "print print_num_integral n name v out
           = out @ name @ '': '' @ concat (map (\<lambda>x. fmt_d x @ '' '') (data v)) @ [CHR 0x0A]
       \<and> print (print_num_floating fmt_f) n name w out
           = out @ name @ '': '' @ concat (map (\<lambda>x. fmt_f x @ '' '') (data w)) @ [CHR 0x0A]
       \<and> print print_num_integral 3 ''v'' (vector3 1 2 3) [] = ''v: 1 2 3 '' @ [CHR 0x0A]"
proof -
  have i: "print_num_integral x out = out @ (fmt_d x @ '' '')" for x out
    by (simp add: print_num_integral_def)
  have f: "print_num_floating fmt_f x out = out @ (fmt_f x @ '' '')" for x out
    by (simp add: print_num_floating_def)
  have "length (data (vector3 1 2 3 :: int vector_base)) = 3"
    by (simp add: vector3_data)
  from print_data [of print_num_integral, OF i this]
  have "print print_num_integral 3 ''v'' (vector3 1 2 3) [] = ''v: 1 2 3 '' @ [CHR 0x0A]"
    by (simp add: vector3_data fmt_d_digit)
  then show ?thesis
    using print_data [of print_num_integral, OF i assms(1)]
      print_data [of "print_num_floating fmt_f", OF f assms(2)]
    by simp
qed

theorem print_output_witness:
  "length (data (vector3 10 (- 2) 0 :: int vector_base)) = 3
     \<and> print print_num_integral 3 ''w'' (vector3 10 (- 2) 0) ''x'' = ''xw: 10 -2 0 '' @ [CHR 0x0A]"
proof -
  have l: "length (data (vector3 10 (- 2) 0 :: int vector_base)) = 3"
    by (simp add: vector3_data)
  from print_output [OF l l, of "''w''" "''x''"] l show ?thesis
    by (simp add: vector3_data fmt_d_def dec_digits.simps digit_char_def)
qed

section \<open>normalize and get_unit_vector\<close>

text \<open>
  C10, as claimed: for every vector \<open>a\<close> of any concrete type, \<open>a\<close> after
  \<open>a.normalize()\<close> equals what \<open>a.get_unit_vector()\<close> returns on the original
  \<open>a\<close>. This fails for \<open>vector3<unsigned int>(65536, 0, 0)\<close>: the square
  \<open>65536 * 65536\<close> wraps around to 0, so \<open>length()\<close> is 0 and the guard
  \<open>l > 0\<close> is false in both methods; \<open>normalize\<close> leaves \<open>(65536, 0, 0)\<close> as it
  is, while \<open>get_unit_vector\<close> returns its zero-initialised \<open>unit_vector\<close>.
\<close>

theorem normalize_differs_from_unit_vector:
  "normalize_vec div_u32 sqrt_u32 3 (vector3 65536 0 0) = Some (vector3 65536 0 0)
     \<and> get_unit_vector div_u32 sqrt_u32 3 (vector3 65536 0 0) = Some (vector3 0 0 0)
     \<and> normalize_vec div_u32 sqrt_u32 3 (vector3 65536 0 0)
         \<noteq> get_unit_vector div_u32 sqrt_u32 3 (vector3 65536 0 0)"
proof -
  have "length_sqr 3 (vector3 65536 0 0 :: 32 word vector_base) = 0"
    by (simp add: length_sqr_3 vector3_data)
  then have l: "length_vec sqrt_u32 3 (vector3 65536 0 0) = 0"
    by (simp add: length_vec_def sqrt_u32_def isqrt_0)
  have "(65536 :: 32 word) \<noteq> 0"
    by simp
  with l show ?thesis
    by (simp add: normalize_vec_def get_unit_vector_def vector3_data default3)
qed

text \<open>
  C10, amended. For a vector \<open>a\<close> of size \<open>N\<close>, \<open>a\<close> after \<open>a.normalize()\<close> equals
  what \<open>a.get_unit_vector()\<close> returns on the original \<open>a\<close> exactly when
  \<open>length() > 0\<close> or \<open>a\<close> is the zero vector. When \<open>length() > 0\<close> is false,
  \<open>normalize\<close> leaves \<open>a\<close> unchanged and \<open>get_unit_vector\<close> returns the zero
  vector. (Over \<open>real\<close> elements a length that is not positive belongs to the zero
  vector only, lemma \<open>real_normalize_is_unit_vector\<close>.)
\<close>

theorem normalize_agrees_with_unit_vector:
  fixes a :: "'a::{zero,plus,times,ord} vector_base"
  assumes "length (data a) = n"
  shows "(normalize_vec dv sq n a = get_unit_vector dv sq n a
            \<longleftrightarrow> 0 < length_vec sq n a \<or> a = vector_base_default n)
       \<and> (\<not> 0 < length_vec sq n a \<longrightarrow>
            normalize_vec dv sq n a = Some a
            \<and> get_unit_vector dv sq n a = Some (vector_base_default n))"
  by (simp add: normalize_vec_data [OF assms] get_unit_vector_data)

theorem normalize_agrees_with_unit_vector_witness:
  "length (data (vector3 3 4 0 :: real vector_base)) = 3
     \<and> 0 < length_vec sqrt 3 (vector3 3 4 0)
     \<and> normalize_vec div_real sqrt 3 (vector3 3 4 0) = get_unit_vector div_real sqrt 3 (vector3 3 4 0)
     \<and> get_unit_vector div_real sqrt 3 (vector3 3 4 0) = Some (vector3 (3 / 5) (4 / 5) 0)
     \<and> \<not> 0 < length_vec sqrt 3 (vector3 0 0 0)
     \<and> normalize_vec div_real sqrt 3 (vector3 0 0 0) = Some (vector3 0 0 0)
     \<and> get_unit_vector div_real sqrt 3 (vector3 0 0 0) = Some (vector_base_default 3)"
proof -
  have l: "length (data (vector3 x y z :: real vector_base)) = 3" for x y z
    by (simp add: vector3_data)
  have p: "0 < length_vec sqrt 3 (vector3 3 4 0)"
    by (simp add: length_vec_real_3_4_0)
  have z: "\<not> 0 < length_vec sqrt 3 (vector3 0 0 0)"
    by (simp add: length_vec_def length_sqr_3 vector3_data)
  have u: "get_unit_vector div_real sqrt 3 (vector3 3 4 0) = Some (vector3 (3 / 5) (4 / 5) 0)"
    unfolding get_unit_vector_data length_vec_real_3_4_0
    by (simp add: div_real_def upt3 vector3_data)
  from normalize_agrees_with_unit_vector [OF l, of div_real sqrt 3 4 0] p
  have e: "normalize_vec div_real sqrt 3 (vector3 3 4 0) = get_unit_vector div_real sqrt 3 (vector3 3 4 0)"
    by blast
  from normalize_agrees_with_unit_vector [OF l, of div_real sqrt 0 0 0] z
  have "normalize_vec div_real sqrt 3 (vector3 0 0 0) = Some (vector3 0 0 0)"
    and "get_unit_vector div_real sqrt 3 (vector3 0 0 0) = Some (vector_base_default 3)"
    by blast+
  with l p z u e show ?thesis
    by (intro conjI)
qed

end
